theory Spec2Isabelle
  imports Main "HOL-Library.Word"
begin

section \<open>Bus reservation application: model of app.py\<close>

text \<open>
  The theory embeds the helpers and the route handlers of \<^verbatim>\<open>app.py\<close>. A handler
  reads the request (method, form, session) and the database and returns a response
  together with the database (and session) it leaves behind. Exceptions that escape a
  handler are values of type \<open>exn\<close>.

  Python strings are modelled by \<open>string\<close>, one \<open>char\<close> per code point, so the model
  covers text whose code points are below 256.
\<close>

subsection \<open>Exceptions and Python list indexing\<close>

datatype exn = IndexError | BadRequestKeyError | IntegrityError

text \<open>
  \<^verbatim>\<open>xs[i]\<close>: an index from \<open>-len(xs)\<close> up to \<open>-1\<close> counts from the end of the
  list, anything else out of range raises \<^verbatim>\<open>IndexError\<close>.
\<close>

definition py_getitem :: "'a list \<Rightarrow> int \<Rightarrow> exn + 'a" where
  "py_getitem xs i =
     (if 0 \<le> i \<and> i < int (length xs) then Inr (xs ! nat i)
      else if - int (length xs) \<le> i \<and> i < 0 then Inr (xs ! nat (int (length xs) + i))
      else Inl IndexError)"

subsection \<open>Text\<close>

text \<open>
  \<^verbatim>\<open>str.strip()\<close> removes the characters for which \<^verbatim>\<open>str.isspace()\<close> holds; below
  code point 256 these are 9 to 13, 28 to 31, 32, 133 and 160. \<^verbatim>\<open>int(s)\<close> (CPython
  3.11) skips the same characters except 28 to 31.
\<close>

definition int_space :: "char \<Rightarrow> bool" where
  "int_space c \<longleftrightarrow>
     c \<in> set [CHR 0x09, CHR 0x0A, CHR 0x0B, CHR 0x0C, CHR 0x0D, CHR 0x20, CHR 0x85, CHR 0xA0]"

definition str_space :: "char \<Rightarrow> bool" where
  "str_space c \<longleftrightarrow> int_space c \<or> c \<in> set [CHR 0x1C, CHR 0x1D, CHR 0x1E, CHR 0x1F]"

definition strip_by :: "(char \<Rightarrow> bool) \<Rightarrow> string \<Rightarrow> string" where
  "strip_by sp s = rev (dropWhile sp (rev (dropWhile sp s)))"

definition strip :: "string \<Rightarrow> string" where
  "strip s = strip_by str_space s"

definition digit_val :: "char \<Rightarrow> nat option" where
  "digit_val c =
     (let n = (of_char c :: nat) in if 48 \<le> n \<and> n \<le> 57 then Some (n - 48) else None)"

text \<open>
  The digits of a decimal literal after its first digit: digits, each optionally preceded
  by one underscore. The accumulator is the value read so far.
\<close>

fun after_digit :: "nat \<Rightarrow> string \<Rightarrow> nat option" where
  "after_digit acc [] = Some acc"
| "after_digit acc [c] =
     (case digit_val c of None \<Rightarrow> None | Some v \<Rightarrow> Some (10 * acc + v))"
| "after_digit acc (c # d # ds) =
     (if c = CHR ''_'' then
        (case digit_val d of None \<Rightarrow> None | Some v \<Rightarrow> after_digit (10 * acc + v) ds)
      else
        (case digit_val c of None \<Rightarrow> None | Some v \<Rightarrow> after_digit (10 * acc + v) (d # ds)))"

text \<open>
  \<^verbatim>\<open>int(s)\<close> on a string, base 10: surrounding whitespace, an optional sign, then the
  digits. \<open>None\<close> stands for \<^verbatim>\<open>ValueError\<close>. (The limit on the number of digits that
  recent interpreters add is not modelled.)
\<close>

definition py_int :: "string \<Rightarrow> int option" where
  "py_int s =
     (let t = strip_by int_space s;
          neg = (case t of [] \<Rightarrow> False | c # _ \<Rightarrow> c = CHR ''-'');
          body = (case t of [] \<Rightarrow> []
                  | c # cs \<Rightarrow> if c = CHR ''-'' \<or> c = CHR ''+'' then cs else t)
      in case body of
           [] \<Rightarrow> None
         | d # ds \<Rightarrow>
             (case digit_val d of
                None \<Rightarrow> None
              | Some v \<Rightarrow>
                  (case after_digit v ds of
                     None \<Rightarrow> None
                   | Some n \<Rightarrow> Some (if neg then - int n else int n))))"

text \<open>\<^verbatim>\<open>str(n)\<close> for an integer, and \<^verbatim>\<open>sep.join(xs)\<close>.\<close>

fun string_of_nat :: "nat \<Rightarrow> string" where
  "string_of_nat n =
     (if n < 10 then [''0123456789'' ! n]
      else string_of_nat (n div 10) @ [''0123456789'' ! (n mod 10)])"

definition string_of_int :: "int \<Rightarrow> string" where
  "string_of_int i =
     (if i < 0 then CHR ''-'' # string_of_nat (nat (- i)) else string_of_nat (nat i))"

text \<open>The format specification \<^verbatim>\<open>{i:2}\<close>: right-aligned in a field of width 2.\<close>

definition format_width2 :: "int \<Rightarrow> string" where
  "format_width2 i =
     (let s = string_of_int i in replicate (2 - length s) CHR '' '' @ s)"

text \<open>
  The format specification \<^verbatim>\<open>{price:.2f}\<close> applied to an integer price: the integer
  with two zero decimals (exact for the magnitudes a price has).
\<close>

definition format_2f :: "int \<Rightarrow> string" where
  "format_2f p = string_of_int p @ ''.00''"

fun py_join :: "string \<Rightarrow> string list \<Rightarrow> string" where
  "py_join sep [] = []"
| "py_join sep [x] = x"
| "py_join sep (x # y # ys) = x @ sep @ py_join sep (y # ys)"

subsection \<open>Models and the database\<close>

text \<open>
  The tables \<^verbatim>\<open>reservations\<close> and \<^verbatim>\<open>admins\<close>, rows in insertion order. The field
  \<open>id_col\<close> is the column \<^verbatim>\<open>id\<close>; \<open>created\<close> is the time of insertion.
\<close>

record reservation =
  id_col :: int
  passengerName :: string
  seatRow :: int
  seatColumn :: int
  eTicketNumber :: string
  created :: nat

record admin =
  username :: string
  password :: string

record db =
  reservations :: "reservation list"
  admins :: "admin list"

text \<open>\<^verbatim>\<open>Reservation.query.all()\<close>\<close>

definition query_all :: "db \<Rightarrow> reservation list" where
  "query_all s = reservations s"

text \<open>\<^verbatim>\<open>Reservation.query.filter_by(seatRow=r, seatColumn=c).first()\<close>\<close>

definition filter_by_seat_first :: "db \<Rightarrow> int \<Rightarrow> int \<Rightarrow> reservation option" where
  "filter_by_seat_first s r c =
     find (\<lambda>x. seatRow x = r \<and> seatColumn x = c) (reservations s)"

text \<open>\<^verbatim>\<open>Reservation.query.get(res_id)\<close>\<close>

definition query_get :: "db \<Rightarrow> int \<Rightarrow> reservation option" where
  "query_get s i = find (\<lambda>x. id_col x = i) (reservations s)"

text \<open>\<^verbatim>\<open>Admin.query.filter_by(username=u, password=p).first()\<close>\<close>

definition admin_filter_first :: "db \<Rightarrow> string \<Rightarrow> string \<Rightarrow> admin option" where
  "admin_filter_first s u p = find (\<lambda>a. username a = u \<and> password a = p) (admins s)"

text \<open>
  \<^verbatim>\<open>db.session.add(new_res); db.session.commit()\<close>. The integer primary key of the new
  row is one more than the largest key in the table (1 in an empty table). The column
  \<^verbatim>\<open>eTicketNumber\<close> is declared unique: a code already in the table makes the commit
  raise and leaves the table as it was.
\<close>

definition next_id :: "reservation list \<Rightarrow> int" where
  "next_id rs = (if rs = [] then 1 else Max (set (map id_col rs)) + 1)"

definition add_commit :: "db \<Rightarrow> string \<Rightarrow> int \<Rightarrow> int \<Rightarrow> string \<Rightarrow> nat \<Rightarrow> exn + db" where
  "add_commit s name r c code now =
     (if code \<in> set (map eTicketNumber (reservations s)) then Inl IntegrityError
      else Inr (s\<lparr>reservations := reservations s @
             [\<lparr>id_col = next_id (reservations s), passengerName = name, seatRow = r,
               seatColumn = c, eTicketNumber = code, created = now\<rparr>]\<rparr>))"

text \<open>\<^verbatim>\<open>db.session.delete(res); db.session.commit()\<close>: the row with the key of \<open>res\<close> goes.\<close>

definition delete_commit :: "db \<Rightarrow> reservation \<Rightarrow> db" where
  "delete_commit s res =
     s\<lparr>reservations := filter (\<lambda>x. id_col x \<noteq> id_col res) (reservations s)\<rparr>"

subsection \<open>Reservation codes\<close>

text \<open>
  \<^verbatim>\<open>random.choices(population, k=length)\<close> draws \<^verbatim>\<open>population[floor(random() * n)]\<close>
  \<open>k\<close> times, where \<^verbatim>\<open>random()\<close> is \<open>m / 2^53\<close> for a 53-bit integer \<open>m\<close>. The
  source of randomness is the sequence of these integers; the product is taken exactly.
\<close>

type_synonym random_source = "nat \<Rightarrow> 53 word"

definition choice_index :: "53 word \<Rightarrow> nat \<Rightarrow> nat" where
  "choice_index m n = unat m * n div 2 ^ 53"

definition choices :: "random_source \<Rightarrow> 'a list \<Rightarrow> nat \<Rightarrow> 'a list" where
  "choices rnd population k =
     map (\<lambda>i. population ! choice_index (rnd i) (length population)) [0..<k]"

definition ascii_uppercase :: string where
  "ascii_uppercase = ''ABCDEFGHIJKLMNOPQRSTUVWXYZ''"

definition digits :: string where
  "digits = ''0123456789''"

definition generate_reservation_code :: "random_source \<Rightarrow> nat \<Rightarrow> string" where
  "generate_reservation_code rnd len =
     py_join [] (map (\<lambda>c. [c]) (choices rnd (ascii_uppercase @ digits) len))"

subsection \<open>Seating chart\<close>

text \<open>
  The loop body of \<^verbatim>\<open>build_seating_chart\<close>: a reservation inside the grid marks its
  cell, any other reservation is skipped.
\<close>

definition mark_seat :: "string list list \<Rightarrow> reservation \<Rightarrow> string list list" where
  "mark_seat seats r =
     (let row_idx = seatRow r - 1; col_idx = seatColumn r - 1
      in if 0 \<le> row_idx \<and> row_idx < 12 \<and> 0 \<le> col_idx \<and> col_idx < 4
         then seats[nat row_idx := (seats ! nat row_idx)[nat col_idx := ''X'']]
         else seats)"

definition seat_grid :: "reservation list \<Rightarrow> string list list" where
  "seat_grid rs = foldl mark_seat (replicate 12 (replicate 4 ''O'')) rs"

definition chart_line :: "nat \<times> string list \<Rightarrow> string" where
  "chart_line p =
     ''Row '' @ format_width2 (int (fst p)) @ '': '' @ py_join '' '' (snd p)"

definition build_seating_chart :: "reservation list \<Rightarrow> string" where
  "build_seating_chart rs =
     (let seats = seat_grid rs
      in py_join [CHR 0x0A] (map chart_line (zip [1..<Suc (length seats)] seats)))"

subsection \<open>Pricing\<close>

text \<open>\<^verbatim>\<open>get_cost_matrix\<close>: \<^verbatim>\<open>[[100, 75, 50, 100] for _ in range(12)]\<close>.\<close>

definition get_cost_matrix :: "int list list" where
  "get_cost_matrix = replicate 12 [100, 75, 50, 100]"

text \<open>\<^verbatim>\<open>calculate_price_for_seat\<close>: \<^verbatim>\<open>matrix[row - 1][col - 1]\<close>.\<close>

definition calculate_price_for_seat :: "int \<Rightarrow> int \<Rightarrow> exn + int" where
  "calculate_price_for_seat row col =
     (case py_getitem get_cost_matrix (row - 1) of
        Inl e \<Rightarrow> Inl e
      | Inr matrix_row \<Rightarrow> py_getitem matrix_row (col - 1))"

text \<open>\<^verbatim>\<open>calculate_total_sales\<close>: the loop, with the running total as accumulator.\<close>

fun total_from :: "int \<Rightarrow> reservation list \<Rightarrow> exn + int" where
  "total_from tot [] = Inr tot"
| "total_from tot (r # rs) =
     (case calculate_price_for_seat (seatRow r) (seatColumn r) of
        Inl e \<Rightarrow> Inl e
      | Inr p \<Rightarrow> total_from (tot + p) rs)"

definition calculate_total_sales :: "reservation list \<Rightarrow> exn + int" where
  "calculate_total_sales rs = total_from 0 rs"

subsection \<open>Requests and responses\<close>

text \<open>
  A request carries its method and its form fields; the session is the signed cookie,
  a dictionary. \<^verbatim>\<open>request.form[k]\<close> on an absent key raises a \<^verbatim>\<open>KeyError\<close> that, when
  nothing catches it, ends the request as 400 Bad Request.
\<close>

datatype http_method = GET | POST

text \<open>The field \<open>req_method\<close> is \<^verbatim>\<open>request.method\<close>.\<close>

record request =
  req_method :: http_method
  form :: "string \<rightharpoonup> string"

type_synonym session = "string \<rightharpoonup> string"

text \<open>
  The messages a handler puts in \<^verbatim>\<open>error\<close>, one constructor per literal of the source:
  "Seat row and column must be numbers.", "Invalid seat selection. Row must be 1-12 and
  column 1-4.", "That seat is already reserved. Please pick another." and "Invalid username
  or password.".
\<close>

datatype form_error = Seat_not_numbers | Invalid_seat_selection | Seat_already_reserved
  | Invalid_login

datatype endpoint = Index | Admin_login | Admin_dashboard

text \<open>
  What a handler returns: \<^verbatim>\<open>render_template\<close> with the template's arguments, or
  \<^verbatim>\<open>redirect(url_for(...))\<close>.
\<close>

datatype response =
    Index_html
  | Reserve_html "form_error option" "string option" string
  | Login_html "form_error option"
  | Admin_html string int "(reservation \<times> int) list"
  | Redirect endpoint

subsection \<open>Route handlers\<close>

definition index :: response where
  "index = Index_html"

text \<open>
  The \<^verbatim>\<open>try\<close> block of \<^verbatim>\<open>reserve_seat\<close>: \<open>None\<close> when either lookup raises
  \<^verbatim>\<open>KeyError\<close> or either conversion raises \<^verbatim>\<open>ValueError\<close>.
\<close>

definition parse_seat :: "(string \<rightharpoonup> string) \<Rightarrow> (int \<times> int) option" where
  "parse_seat f =
     (case f ''seat_row'' of
        None \<Rightarrow> None
      | Some a \<Rightarrow>
          (case py_int a of
             None \<Rightarrow> None
           | Some seat_row \<Rightarrow>
               (case f ''seat_column'' of
                  None \<Rightarrow> None
                | Some b \<Rightarrow>
                    (case py_int b of
                       None \<Rightarrow> None
                     | Some seat_column \<Rightarrow> Some (seat_row, seat_column)))))"

definition success_message :: "string \<Rightarrow> string \<Rightarrow> int \<Rightarrow> int \<Rightarrow> int \<Rightarrow> string" where
  "success_message passenger_name code seat_row seat_column price =
     ''Reservation confirmed for '' @ passenger_name @ ''! '' @
     ''Code: '' @ code @ '', Seat: Row '' @ string_of_int seat_row @
     '', Column '' @ string_of_int seat_column @ '', '' @
     ''Price: $'' @ format_2f price"

text \<open>
  \<^verbatim>\<open>reserve_seat\<close>. Beside the request and the database it reads the source of
  randomness and the clock; it returns the response, or the exception that escapes, and
  the database after the request.
\<close>

definition reserve_seat ::
  "request \<Rightarrow> random_source \<Rightarrow> nat \<Rightarrow> db \<Rightarrow> (exn + response) \<times> db" where
  "reserve_seat req rnd now s =
     (let seating = build_seating_chart (query_all s) in
      if req_method req = POST then
        (case form req ''first_name'' of
           None \<Rightarrow> (Inl BadRequestKeyError, s)
         | Some first_name \<Rightarrow>
        (case form req ''last_name'' of
           None \<Rightarrow> (Inl BadRequestKeyError, s)
         | Some last_name \<Rightarrow>
        (let passenger_name = strip first_name @ '' '' @ strip last_name in
         case parse_seat (form req) of
           None \<Rightarrow> (Inr (Reserve_html (Some Seat_not_numbers) None seating), s)
         | Some (seat_row, seat_column) \<Rightarrow>
             if \<not> (1 \<le> seat_row \<and> seat_row \<le> 12 \<and> 1 \<le> seat_column \<and> seat_column \<le> 4)
             then (Inr (Reserve_html (Some Invalid_seat_selection) None seating), s)
             else
               (case filter_by_seat_first s seat_row seat_column of
                  Some existing \<Rightarrow>
                    (Inr (Reserve_html (Some Seat_already_reserved) None seating), s)
                | None \<Rightarrow>
                    (let code = generate_reservation_code rnd 8 in
                     case add_commit s passenger_name seat_row seat_column code now of
                       Inl e \<Rightarrow> (Inl e, s)
                     | Inr s' \<Rightarrow>
                         (let seating' = build_seating_chart (query_all s') in
                          case calculate_price_for_seat seat_row seat_column of
                            Inl e \<Rightarrow> (Inl e, s')
                          | Inr price \<Rightarrow>
                              (Inr (Reserve_html None
                                      (Some (success_message passenger_name code
                                               seat_row seat_column price))
                                      seating'), s')))))))
      else (Inr (Reserve_html None None seating), s))"

text \<open>\<^verbatim>\<open>admin_login\<close>: the response and the session after the request.\<close>

definition admin_login :: "request \<Rightarrow> session \<Rightarrow> db \<Rightarrow> (exn + response) \<times> session" where
  "admin_login req sess s =
     (if req_method req = POST then
        (case form req ''username'' of
           None \<Rightarrow> (Inl BadRequestKeyError, sess)
         | Some u \<Rightarrow>
        (case form req ''password'' of
           None \<Rightarrow> (Inl BadRequestKeyError, sess)
         | Some p \<Rightarrow>
        (case admin_filter_first s (strip u) (strip p) of
           Some adm \<Rightarrow>
             (Inr (Redirect Admin_dashboard), sess(''admin_username'' \<mapsto> username adm))
         | None \<Rightarrow> (Inr (Login_html (Some Invalid_login)), sess))))
      else (Inr (Login_html None), sess))"

text \<open>
  \<^verbatim>\<open>admin_dashboard\<close>. The total is computed before the list of pairs; both call
  \<^verbatim>\<open>calculate_price_for_seat\<close> on every reservation.
\<close>

fun with_prices :: "reservation list \<Rightarrow> exn + (reservation \<times> int) list" where
  "with_prices [] = Inr []"
| "with_prices (r # rs) =
     (case calculate_price_for_seat (seatRow r) (seatColumn r) of
        Inl e \<Rightarrow> Inl e
      | Inr price \<Rightarrow>
          (case with_prices rs of
             Inl e \<Rightarrow> Inl e
           | Inr ps \<Rightarrow> Inr ((r, price) # ps)))"

definition admin_dashboard :: "session \<Rightarrow> db \<Rightarrow> exn + response" where
  "admin_dashboard sess s =
     (if sess ''admin_username'' = None then Inr (Redirect Admin_login)
      else
        (let rs = query_all s; seating = build_seating_chart rs in
         case calculate_total_sales rs of
           Inl e \<Rightarrow> Inl e
         | Inr total_sales \<Rightarrow>
             (case with_prices rs of
                Inl e \<Rightarrow> Inl e
              | Inr reservations_with_price \<Rightarrow>
                  Inr (Admin_html seating total_sales reservations_with_price))))"

text \<open>\<^verbatim>\<open>delete_reservation\<close>: the response and the database after the request.\<close>

definition delete_reservation :: "int \<Rightarrow> session \<Rightarrow> db \<Rightarrow> response \<times> db" where
  "delete_reservation res_id sess s =
     (if sess ''admin_username'' = None then (Redirect Admin_login, s)
      else
        (case query_get s res_id of
           Some res \<Rightarrow> (Redirect Admin_dashboard, delete_commit s res)
         | None \<Rightarrow> (Redirect Admin_dashboard, s)))"

text \<open>\<^verbatim>\<open>admin_logout\<close>: \<^verbatim>\<open>session.pop("admin_username", None)\<close>.\<close>

definition admin_logout :: "session \<Rightarrow> response \<times> session" where
  "admin_logout sess = (Redirect Index, sess(''admin_username'' := None))"

subsection \<open>Sequences of requests\<close>

text \<open>
  The requests that can change the database, each with what it reads beside the
  database, and the database after a sequence of them. The other routes leave the
  database alone.
\<close>

datatype event =
    Reserve request random_source nat
  | Delete int session

fun handle :: "db \<Rightarrow> event \<Rightarrow> db" where
  "handle s (Reserve req rnd now) = snd (reserve_seat req rnd now s)"
| "handle s (Delete res_id sess) = snd (delete_reservation res_id sess s)"

definition run :: "db \<Rightarrow> event list \<Rightarrow> db" where
  "run s evs = foldl handle s evs"

subsection \<open>Vocabulary of the properties\<close>

text \<open>A seat of the bus: a row from 1 to 12 and a column from 1 to 4.\<close>

definition in_grid :: "int \<Rightarrow> int \<Rightarrow> bool" where
  "in_grid r c \<longleftrightarrow> 1 \<le> r \<and> r \<le> 12 \<and> 1 \<le> c \<and> c \<le> 4"

text \<open>The reservations stored for a seat, and whether there is one.\<close>

definition reservations_at :: "reservation list \<Rightarrow> int \<Rightarrow> int \<Rightarrow> reservation list" where
  "reservations_at rs r c = filter (\<lambda>x. seatRow x = r \<and> seatColumn x = c) rs"

definition seat_taken :: "reservation list \<Rightarrow> int \<Rightarrow> int \<Rightarrow> bool" where
  "seat_taken rs r c \<longleftrightarrow> reservations_at rs r c \<noteq> []"



text \<open>The shape of the seating grid: 12 rows of 4 cells.\<close>

definition grid_ok :: "string list list \<Rightarrow> bool" where
  "grid_ok g \<longleftrightarrow> length g = 12 \<and> (\<forall>i<12. length (g ! i) = 4)"

text \<open>
  A form posted to \<^verbatim>\<open>/reserve\<close> that carries the passenger's first and last name.
  Its seat fields may be absent or malformed.
\<close>

definition booking_with_names :: "request \<Rightarrow> bool" where
  "booking_with_names req \<longleftrightarrow>
     req_method req = POST \<and> form req ''first_name'' \<noteq> None \<and> form req ''last_name'' \<noteq> None"



text \<open>
  The row a confirmed booking of seat \<open>(r, c)\<close> adds to the table, and the message it
  shows.
\<close>

definition booked_row :: "db \<Rightarrow> request \<Rightarrow> random_source \<Rightarrow> nat \<Rightarrow> int \<Rightarrow> int \<Rightarrow> reservation" where
  "booked_row s req rnd now r c =
     \<lparr>id_col = next_id (reservations s),
      passengerName =
        strip (the (form req ''first_name'')) @ '' '' @ strip (the (form req ''last_name'')),
      seatRow = r, seatColumn = c,
      eTicketNumber = generate_reservation_code rnd 8, created = now\<rparr>"

definition booked_message :: "request \<Rightarrow> random_source \<Rightarrow> int \<Rightarrow> int \<Rightarrow> string" where
  "booked_message req rnd r c =
     success_message
       (strip (the (form req ''first_name'')) @ '' '' @ strip (the (form req ''last_name'')))
       (generate_reservation_code rnd 8) r c
       (if c = 1 \<or> c = 4 then 100 else if c = 2 then 75 else 50)"

text \<open>The response confirms a booking: the template receives a success message.\<close>

fun is_confirmation :: "exn + response \<Rightarrow> bool" where
  "is_confirmation (Inr (Reserve_html e (Some msg) chart)) = True"
| "is_confirmation out = False"

text \<open>The session is that of a logged-in administrator.\<close>

definition authenticated :: "session \<Rightarrow> bool" where
  "authenticated sess \<longleftrightarrow> sess ''admin_username'' \<noteq> None"

text \<open>
  \<open>priceOf\<close> of the pricing table: the price of a seat, when the lookup returns one.
  The total of the dashboard in the words of its contract: the sum of \<open>priceOf\<close> over
  all reservations, defined when every reservation has a price.
\<close>

definition priceOf :: "int \<Rightarrow> int \<Rightarrow> int option" where
  "priceOf r c = (case calculate_price_for_seat r c of Inl e \<Rightarrow> None | Inr p \<Rightarrow> Some p)"

definition sum_of_prices :: "reservation list \<Rightarrow> int option" where
  "sum_of_prices rs =
     (if list_all (\<lambda>x. priceOf (seatRow x) (seatColumn x) \<noteq> None) rs
      then Some (sum_list (map (\<lambda>x. the (priceOf (seatRow x) (seatColumn x))) rs))
      else None)"

subsection \<open>Example values\<close>

text \<open>
  A database with no reservation and the administrator \<^verbatim>\<open>Admin("a", "p")\<close>, and the form
  a passenger posts for a seat.
\<close>

definition seeded_db :: db where
  "seeded_db = \<lparr>reservations = [], admins = [\<lparr>username = ''a'', password = ''p''\<rparr>]\<rparr>"

definition seat_request :: "string \<Rightarrow> string \<Rightarrow> request" where
  "seat_request r c =
     \<lparr>req_method = POST,
      form = [''first_name'' \<mapsto> '' Ann'', ''last_name'' \<mapsto> ''Lee'',
              ''seat_row'' \<mapsto> r, ''seat_column'' \<mapsto> c]\<rparr>"

definition login_request :: "string \<Rightarrow> string \<Rightarrow> request" where
  "login_request u p =
     \<lparr>req_method = POST, form = [''username'' \<mapsto> u, ''password'' \<mapsto> p]\<rparr>"

text \<open>A source of randomness whose every draw is one half.\<close>

definition half_source :: random_source where
  "half_source i = 2 ^ 52"

section \<open>Properties\<close>

subsection \<open>Pricing\<close>

lemma cost_matrix_row:
  "0 \<le> i \<Longrightarrow> i < 12 \<Longrightarrow> py_getitem get_cost_matrix i = Inr [100, 75, 50, 100]"
  by (simp add: py_getitem_def get_cost_matrix_def)

lemma cost_matrix_row_neg:
  "- 12 \<le> i \<Longrightarrow> i < 0 \<Longrightarrow> py_getitem get_cost_matrix i = Inr [100, 75, 50, 100]"
  by (simp add: py_getitem_def get_cost_matrix_def)

lemma cost_matrix_row_out:
  "i < - 12 \<or> 12 \<le> i \<Longrightarrow> py_getitem get_cost_matrix i = Inl IndexError"
  by (auto simp add: py_getitem_def get_cost_matrix_def)

lemma price_row_cases:
  "py_getitem [100, 75, 50, 100 :: int] j =
     (if j = 0 \<or> j = 3 \<or> j = - 1 \<or> j = - 4 then Inr 100
      else if j = 1 \<or> j = - 3 then Inr 75
      else if j = 2 \<or> j = - 2 then Inr 50
      else Inl IndexError)"
proof -
  consider "j < - 4" | "j = - 4" | "j = - 3" | "j = - 2" | "j = - 1"
    | "j = 0" | "j = 1" | "j = 2" | "j = 3" | "3 < j"
    by linarith
  then show ?thesis
    by cases (simp_all add: py_getitem_def)
qed

lemma price_in_grid:
  assumes "1 \<le> r" "r \<le> 12" "1 \<le> c" "c \<le> 4"
  shows "calculate_price_for_seat r c =
           Inr (if c = 1 \<or> c = 4 then 100 else if c = 2 then 75 else 50)"
proof -
  have "py_getitem get_cost_matrix (r - 1) = Inr [100, 75, 50, 100]"
    using assms by (intro cost_matrix_row) simp_all
  moreover have "c = 1 \<or> c = 2 \<or> c = 3 \<or> c = 4"
    using assms by linarith
  ultimately show ?thesis
    by (auto simp add: calculate_price_for_seat_def price_row_cases)
qed

text \<open>
  C2. For every row \<open>r\<close> in 1..12 and column \<open>c\<close> in 1..4 the price of seat \<open>(r, c)\<close>
  is 100 when \<open>c\<close> is 1 or 4, 75 when \<open>c\<close> is 2 and 50 when \<open>c\<close> is 3, whatever
  the row.
\<close>

theorem priceOf_by_column:
  "1 \<le> r \<and> r \<le> 12 \<and> 1 \<le> c \<and> c \<le> 4 \<Longrightarrow>
     calculate_price_for_seat r c =
       Inr (if c = 1 \<or> c = 4 then 100 else if c = 2 then 75 else 50)"
  by (simp add: price_in_grid)

theorem priceOf_by_column_witness:
  "(1::int) \<le> 7 \<and> (7::int) \<le> 12 \<and> (1::int) \<le> 2 \<and> (2::int) \<le> 4 \<and>
     calculate_price_for_seat 7 2 = Inr 75"
  using priceOf_by_column [of 7 2] by simp

lemma price_total:
  "calculate_price_for_seat row col =
     (if row < - 11 \<or> 12 < row \<or> col < - 3 \<or> 4 < col then Inl IndexError
      else Inr ([100, 75, 50, 100] ! nat ((col - 1) mod 4)))"
proof (cases "row < - 11 \<or> 12 < row")
  case True
  then have "py_getitem get_cost_matrix (row - 1) = Inl IndexError"
    by (intro cost_matrix_row_out) linarith
  with True show ?thesis
    by (auto simp add: calculate_price_for_seat_def)
next
  case False
  then have "py_getitem get_cost_matrix (row - 1) = Inr [100, 75, 50, 100]"
    using cost_matrix_row [of "row - 1"] cost_matrix_row_neg [of "row - 1"]
    by (cases "0 \<le> row - 1") simp_all
  then have eq: "\<And>k. calculate_price_for_seat row k = py_getitem [100, 75, 50, 100] (k - 1)"
    by (simp add: calculate_price_for_seat_def)
  consider "col < - 3" | "col = - 3" | "col = - 2" | "col = - 1" | "col = 0"
    | "col = 1" | "col = 2" | "col = 3" | "col = 4" | "4 < col"
    by linarith
  then show ?thesis
    using False by cases (simp_all add: eq price_row_cases)
qed

text \<open>
  C9 (as amended). A price is refused exactly when the row is outside -11..12 or the
  column is outside -3..4: then the index is out of bounds and \<^verbatim>\<open>IndexError\<close> is
  raised. For a row from -11 to 0 or a column from -3 to 0 the negative index counts from
  the end of the list and a price is returned.
\<close>

theorem priceOf_index_error:
  "calculate_price_for_seat row col =
     (if row < - 11 \<or> 12 < row \<or> col < - 3 \<or> 4 < col then Inl IndexError
      else Inr ([100, 75, 50, 100] ! nat ((col - 1) mod 4)))"
  by (rule price_total)

theorem priceOf_index_error_witness:
  "calculate_price_for_seat 13 1 = Inl IndexError \<and> calculate_price_for_seat 1 (- 4) = Inl IndexError"
  using priceOf_index_error [of 13 1] priceOf_index_error [of 1 "- 4"] by simp

text \<open>
  The claim as stated fails at row 0, column 0: both are outside the grid, and the call
  returns the price 100 of the last seat of the last row.
\<close>

theorem priceOf_out_of_range_counterexample:
  "\<not> (1 \<le> (0::int) \<and> (0::int) \<le> 12) \<and> calculate_price_for_seat 0 0 = Inr 100"
  by (simp add: price_total)

subsection \<open>Reservation codes\<close>


lemma join_singletons: "py_join [] (map (\<lambda>c. [c]) xs) = xs"
  by (induction xs rule: induct_list012) simp_all

lemma code_is_choices:
  "generate_reservation_code rnd len = choices rnd (ascii_uppercase @ digits) len"
  by (simp add: generate_reservation_code_def join_singletons)



lemma alphabet: "ascii_uppercase @ digits = ''ABCDEFGHIJKLMNOPQRSTUVWXYZ0123456789''"
  by (simp add: ascii_uppercase_def digits_def)


lemma code_zero: "generate_reservation_code (\<lambda>i. 0) 8 = ''AAAAAAAA''"
  by (simp add: code_is_choices choices_def choice_index_def alphabet upt_rec)



subsection \<open>Seating chart\<close>


lemma grid_ok_mark: "grid_ok g \<Longrightarrow> grid_ok (mark_seat g r)"
  by (auto simp add: grid_ok_def mark_seat_def Let_def nth_list_update)

lemma grid_ok_foldl: "grid_ok g \<Longrightarrow> grid_ok (foldl mark_seat g rs)"
  by (induction rs arbitrary: g) (simp_all add: grid_ok_mark)




lemma seat_taken_iff: "seat_taken rs r c \<longleftrightarrow> (\<exists>x\<in>set rs. seatRow x = r \<and> seatColumn x = c)"
  by (auto simp add: seat_taken_def reservations_at_def filter_empty_conv)



subsection \<open>Booking\<close>

lemma in_grid_price:
  "in_grid r c \<Longrightarrow>
     calculate_price_for_seat r c = Inr (if c = 1 \<or> c = 4 then 100 else if c = 2 then 75 else 50)"
  by (simp add: in_grid_def price_in_grid)

lemma filter_by_seat_first_None:
  "filter_by_seat_first s r c = None \<longleftrightarrow> \<not> seat_taken (reservations s) r c"
  by (auto simp add: filter_by_seat_first_def find_None_iff seat_taken_iff)

lemma reserve_seat_not_post:
  "req_method req \<noteq> POST \<Longrightarrow>
     reserve_seat req rnd now s =
       (Inr (Reserve_html None None (build_seating_chart (reservations s))), s)"
  by (simp add: reserve_seat_def query_all_def)

lemma reserve_seat_no_name:
  "req_method req = POST \<Longrightarrow> form req ''first_name'' = None \<or> form req ''last_name'' = None \<Longrightarrow>
     reserve_seat req rnd now s = (Inl BadRequestKeyError, s)"
  by (auto simp add: reserve_seat_def Let_def split: option.splits)

lemma reserve_seat_unparsed:
  "booking_with_names req \<Longrightarrow> parse_seat (form req) = None \<Longrightarrow>
     reserve_seat req rnd now s =
       (Inr (Reserve_html (Some Seat_not_numbers) None (build_seating_chart (reservations s))), s)"
  by (auto simp add: reserve_seat_def booking_with_names_def query_all_def)

lemma reserve_seat_out_of_grid:
  "booking_with_names req \<Longrightarrow> parse_seat (form req) = Some (r, c) \<Longrightarrow> \<not> in_grid r c \<Longrightarrow>
     reserve_seat req rnd now s =
       (Inr (Reserve_html (Some Invalid_seat_selection) None
               (build_seating_chart (reservations s))), s)"
  by (auto simp add: reserve_seat_def booking_with_names_def query_all_def in_grid_def)

lemma reserve_seat_taken:
  "booking_with_names req \<Longrightarrow> parse_seat (form req) = Some (r, c) \<Longrightarrow> in_grid r c \<Longrightarrow>
   seat_taken (reservations s) r c \<Longrightarrow>
     reserve_seat req rnd now s =
       (Inr (Reserve_html (Some Seat_already_reserved) None
               (build_seating_chart (reservations s))), s)"
  using filter_by_seat_first_None [of s r c]
  by (auto simp add: reserve_seat_def booking_with_names_def query_all_def in_grid_def)

lemma reserve_seat_collision:
  "booking_with_names req \<Longrightarrow> parse_seat (form req) = Some (r, c) \<Longrightarrow> in_grid r c \<Longrightarrow>
   \<not> seat_taken (reservations s) r c \<Longrightarrow>
   generate_reservation_code rnd 8 \<in> set (map eTicketNumber (reservations s)) \<Longrightarrow>
     reserve_seat req rnd now s = (Inl IntegrityError, s)"
  using filter_by_seat_first_None [of s r c]
  by (auto simp add: reserve_seat_def booking_with_names_def query_all_def in_grid_def
      add_commit_def)

lemma reserve_seat_success:
  assumes "booking_with_names req" "parse_seat (form req) = Some (r, c)" "in_grid r c"
    "\<not> seat_taken (reservations s) r c"
    "generate_reservation_code rnd 8 \<notin> set (map eTicketNumber (reservations s))"
  shows "reserve_seat req rnd now s =
       (Inr (Reserve_html None (Some (booked_message req rnd r c))
               (build_seating_chart (reservations s @ [booked_row s req rnd now r c]))),
        s\<lparr>reservations := reservations s @ [booked_row s req rnd now r c]\<rparr>)"
proof -
  obtain fn ln where names: "form req ''first_name'' = Some fn" "form req ''last_name'' = Some ln"
    and post: "req_method req = POST"
    using assms(1) by (auto simp add: booking_with_names_def)
  have none: "filter_by_seat_first s r c = None"
    using assms(4) by (simp add: filter_by_seat_first_None)
  have grid: "1 \<le> r \<and> r \<le> 12 \<and> 1 \<le> c \<and> c \<le> 4"
    using assms(3) by (simp add: in_grid_def)
  show ?thesis
    using assms(2,5) grid
    by (simp add: reserve_seat_def post names none add_commit_def query_all_def
        in_grid_price [OF assms(3)] booked_row_def booked_message_def Let_def)
qed

lemma reserve_seat_outcomes:
  "reserve_seat req rnd now s =
     (Inr (Reserve_html None None (build_seating_chart (reservations s))), s)
   \<or> reserve_seat req rnd now s = (Inl BadRequestKeyError, s)
   \<or> reserve_seat req rnd now s = (Inl IntegrityError, s)
   \<or> (\<exists>e. reserve_seat req rnd now s =
         (Inr (Reserve_html (Some e) None (build_seating_chart (reservations s))), s))
   \<or> (\<exists>r c. booking_with_names req \<and> parse_seat (form req) = Some (r, c) \<and> in_grid r c \<and>
         \<not> seat_taken (reservations s) r c \<and>
         generate_reservation_code rnd 8 \<notin> set (map eTicketNumber (reservations s)))"
proof (cases "booking_with_names req")
  case False
  then show ?thesis
    using reserve_seat_not_post [of req rnd now s] reserve_seat_no_name [of req rnd now s]
    by (auto simp add: booking_with_names_def)
next
  case True
  show ?thesis
  proof (cases "parse_seat (form req)")
    case None
    then show ?thesis
      using reserve_seat_unparsed [OF True, of rnd now s] by simp
  next
    case (Some rc)
    obtain r c where rc: "parse_seat (form req) = Some (r, c)"
      using Some by (cases rc) simp
    show ?thesis
      using reserve_seat_out_of_grid [OF True rc, of rnd now s]
        reserve_seat_taken [OF True rc, of s rnd now]
        reserve_seat_collision [OF True rc, of s rnd now] True rc
      by blast
  qed
qed




lemma reserve_seat_frame:
  assumes "reserve_seat req rnd now s = (out, s')"
  shows "\<not> is_confirmation out \<Longrightarrow> s' = s"
    and "is_confirmation out \<Longrightarrow>
      \<exists>r c. booking_with_names req \<and> parse_seat (form req) = Some (r, c) \<and> in_grid r c \<and>
        \<not> seat_taken (reservations s) r c \<and>
        generate_reservation_code rnd 8 \<notin> set (map eTicketNumber (reservations s)) \<and>
        s' = s\<lparr>reservations := reservations s @ [booked_row s req rnd now r c]\<rparr> \<and>
        out = Inr (Reserve_html None (Some (booked_message req rnd r c))
                (build_seating_chart (reservations s')))"
proof -
  note cases = reserve_seat_outcomes [of req rnd now s]
  show "s' = s" if "\<not> is_confirmation out"
    using cases that assms reserve_seat_success [of req _ _ s rnd now]
    by auto
  show "\<exists>r c. booking_with_names req \<and> parse_seat (form req) = Some (r, c) \<and> in_grid r c \<and>
        \<not> seat_taken (reservations s) r c \<and>
        generate_reservation_code rnd 8 \<notin> set (map eTicketNumber (reservations s)) \<and>
        s' = s\<lparr>reservations := reservations s @ [booked_row s req rnd now r c]\<rparr> \<and>
        out = Inr (Reserve_html None (Some (booked_message req rnd r c))
                (build_seating_chart (reservations s')))"
    if "is_confirmation out"
  proof -
    from cases that assms obtain r c where
      h: "booking_with_names req" "parse_seat (form req) = Some (r, c)" "in_grid r c"
        "\<not> seat_taken (reservations s) r c"
        "generate_reservation_code rnd 8 \<notin> set (map eTicketNumber (reservations s))"
      by auto
    show ?thesis
      using reserve_seat_success [OF h, of now] assms h
      by (intro exI [of _ r] exI [of _ c]) auto
  qed
qed

lemma booked_row_seat [simp]:
  "seatRow (booked_row s req rnd now r c) = r" "seatColumn (booked_row s req rnd now r c) = c"
  by (simp_all add: booked_row_def)


subsection \<open>Evaluation of the examples\<close>

lemma py_int_examples:
  "py_int ''1'' = Some 1" "py_int ''3'' = Some 3" "py_int ''13'' = Some 13"
  "py_int ''0'' = Some 0" "py_int ''x'' = None" "py_int '' 2 '' = Some 2"
  by (simp_all add: py_int_def strip_by_def int_space_def digit_val_def)

lemma strip_examples: "strip '' Ann'' = ''Ann''" "strip ''Lee'' = ''Lee''"
  "strip '' a '' = ''a''" "strip ''p'' = ''p''" "strip '' a'' = ''a''"
  by (simp_all add: strip_def strip_by_def str_space_def int_space_def)

lemma seat_request_booking: "booking_with_names (seat_request a b)"
  by (simp add: booking_with_names_def seat_request_def)

lemma seat_request_form:
  "form (seat_request a b) ''seat_row'' = Some a"
  "form (seat_request a b) ''seat_column'' = Some b"
  "form (seat_request a b) ''first_name'' = Some '' Ann''"
  "form (seat_request a b) ''last_name'' = Some ''Lee''"
  by (simp_all add: seat_request_def)

lemma seat_request_parse:
  "parse_seat (form (seat_request ''1'' ''1'')) = Some (1, 1)"
  "parse_seat (form (seat_request ''1'' ''3'')) = Some (1, 3)"
  "parse_seat (form (seat_request ''13'' ''1'')) = Some (13, 1)"
  "parse_seat (form (seat_request ''x'' ''1'')) = None"
  by (simp_all add: parse_seat_def seat_request_form py_int_examples)

lemma first_booking:
  "reserve_seat (seat_request ''1'' ''3'') (\<lambda>i. 0) 7 seeded_db =
     (Inr (Reserve_html None (Some (booked_message (seat_request ''1'' ''3'') (\<lambda>i. 0) 1 3))
        (build_seating_chart [booked_row seeded_db (seat_request ''1'' ''3'') (\<lambda>i. 0) 7 1 3])),
      seeded_db\<lparr>reservations := [booked_row seeded_db (seat_request ''1'' ''3'') (\<lambda>i. 0) 7 1 3]\<rparr>)"
  using reserve_seat_success [of "seat_request ''1'' ''3''" 1 3 seeded_db "\<lambda>i. 0" 7]
  by (simp add: seat_request_booking seat_request_parse in_grid_def seat_taken_def
      reservations_at_def seeded_db_def)

lemma booked_row_example:
  "booked_row seeded_db (seat_request ''1'' ''3'') (\<lambda>i. 0) 7 1 3 =
     \<lparr>id_col = 1, passengerName = ''Ann Lee'', seatRow = 1, seatColumn = 3,
      eTicketNumber = ''AAAAAAAA'', created = 7\<rparr>"
  by (simp add: booked_row_def seat_request_form strip_examples code_zero next_id_def seeded_db_def)







subsection \<open>One reservation per seat\<close>




lemma delete_reservation_auth:
  assumes "authenticated sess"
  shows "delete_reservation res_id sess s =
     (Redirect Admin_dashboard,
      s\<lparr>reservations := filter (\<lambda>x. id_col x \<noteq> res_id) (reservations s)\<rparr>)"
proof (cases "query_get s res_id")
  case None
  then have "\<forall>x\<in>set (reservations s). id_col x \<noteq> res_id"
    by (auto simp add: query_get_def find_None_iff)
  then have "filter (\<lambda>x. id_col x \<noteq> res_id) (reservations s) = reservations s"
    by (simp add: filter_id_conv)
  then show ?thesis
    using assms None by (simp add: delete_reservation_def authenticated_def)
next
  case (Some res)
  then have "id_col res = res_id"
    by (auto simp add: query_get_def find_Some_iff)
  then show ?thesis
    using assms Some by (simp add: delete_reservation_def authenticated_def delete_commit_def)
qed





lemma distinct_map_filter_le:
  "distinct (map f xs) \<Longrightarrow> length (filter (\<lambda>x. f x = k) xs) \<le> 1"
proof (induction xs)
  case Nil
  then show ?case by simp
next
  case (Cons x xs)
  show ?case
  proof (cases "f x = k")
    case True
    then have "\<forall>y\<in>set xs. f y \<noteq> k"
      using Cons.prems by (auto simp add: image_iff)
    then have "filter (\<lambda>x. f x = k) xs = []"
      by (simp add: filter_empty_conv)
    then show ?thesis using True by simp
  next
    case False
    then show ?thesis using Cons by simp
  qed
qed




lemma run_first_booking:
  "run seeded_db [Reserve (seat_request ''1'' ''3'') (\<lambda>i. 0) 7] =
     seeded_db\<lparr>reservations :=
       [\<lparr>id_col = 1, passengerName = ''Ann Lee'', seatRow = 1, seatColumn = 3,
         eTicketNumber = ''AAAAAAAA'', created = 7\<rparr>]\<rparr>"
  by (simp add: run_def first_booking booked_row_example)


subsection \<open>Deleting a reservation\<close>

lemma filter_out_length:
  assumes "distinct (map f xs)" "k \<in> f ` set xs"
  shows "length (filter (\<lambda>x. f x \<noteq> k) xs) + 1 = length xs"
proof -
  have "filter (\<lambda>x. f x = k) xs \<noteq> []"
    using assms(2) by (auto simp add: filter_empty_conv)
  then have "length (filter (\<lambda>x. f x = k) xs) = 1"
    using distinct_map_filter_le [OF assms(1), of k]
    by (cases "filter (\<lambda>x. f x = k) xs") simp_all
  then show ?thesis
    using sum_length_filter_compl [of "\<lambda>x. f x = k" xs] by simp
qed


lemma booked_db:
  "reservations (run seeded_db [Reserve (seat_request ''1'' ''3'') (\<lambda>i. 0) 7]) =
     [\<lparr>id_col = 1, passengerName = ''Ann Lee'', seatRow = 1, seatColumn = 3,
       eTicketNumber = ''AAAAAAAA'', created = 7\<rparr>]"
  "admins (run seeded_db [Reserve (seat_request ''1'' ''3'') (\<lambda>i. 0) 7]) =
     [\<lparr>username = ''a'', password = ''p''\<rparr>]"
  unfolding run_first_booking by (simp_all add: seeded_db_def)

lemma admin_session: "authenticated [''admin_username'' \<mapsto> ''a'']"
  by (simp add: authenticated_def)


text \<open>
  C10. In the delete flow of a logged-in administrator, for the identifier of an existing
  reservation: the table afterwards is the table before without the rows of that
  identifier, in the same order, so a reservation is in it exactly when it was there
  before and has another identifier; the administrators are unchanged; and, identifiers
  being a key of the table, exactly one row has gone.
\<close>

theorem delete_frame:
  "authenticated sess \<Longrightarrow> \<exists>x\<in>set (reservations s). id_col x = res_id \<Longrightarrow>
     reservations (snd (delete_reservation res_id sess s)) =
       filter (\<lambda>x. id_col x \<noteq> res_id) (reservations s) \<and>
     (\<forall>x. x \<in> set (reservations (snd (delete_reservation res_id sess s))) \<longleftrightarrow>
          x \<in> set (reservations s) \<and> id_col x \<noteq> res_id) \<and>
     admins (snd (delete_reservation res_id sess s)) = admins s \<and>
     (distinct (map id_col (reservations s)) \<longrightarrow>
        length (reservations (snd (delete_reservation res_id sess s))) + 1 =
          length (reservations s))"
proof -
  assume a: "authenticated sess" and e: "\<exists>x\<in>set (reservations s). id_col x = res_id"
  have "res_id \<in> id_col ` set (reservations s)"
    using e by auto
  then show ?thesis
    using filter_out_length [of id_col "reservations s" res_id]
    by (auto simp add: delete_reservation_auth [OF a])
qed

theorem delete_frame_witness:
  "authenticated [''admin_username'' \<mapsto> ''a''] \<and>
   (\<exists>x\<in>set (reservations (run seeded_db [Reserve (seat_request ''1'' ''3'') (\<lambda>i. 0) 7])).
      id_col x = 1) \<and>
   reservations (snd (delete_reservation 1 [''admin_username'' \<mapsto> ''a'']
       (run seeded_db [Reserve (seat_request ''1'' ''3'') (\<lambda>i. 0) 7]))) = [] \<and>
   admins (snd (delete_reservation 1 [''admin_username'' \<mapsto> ''a'']
       (run seeded_db [Reserve (seat_request ''1'' ''3'') (\<lambda>i. 0) 7]))) =
     [\<lparr>username = ''a'', password = ''p''\<rparr>]"
proof -
  let ?s = "run seeded_db [Reserve (seat_request ''1'' ''3'') (\<lambda>i. 0) 7]"
  have e: "\<exists>x\<in>set (reservations ?s). id_col x = 1"
    by (simp add: booked_db)
  show ?thesis
    using delete_frame [OF admin_session e] admin_session e
    by (simp add: booked_db)
qed

subsection \<open>Total sales\<close>

lemma price_error: "calculate_price_for_seat r c = Inl e \<Longrightarrow> e = IndexError"
  by (simp add: price_total split: if_splits)

lemma priceOf_None: "priceOf r c = None \<longleftrightarrow> calculate_price_for_seat r c = Inl IndexError"
  by (auto simp add: priceOf_def split: sum.splits dest: price_error)

lemma priceOf_Some: "priceOf r c = Some p \<longleftrightarrow> calculate_price_for_seat r c = Inr p"
  by (auto simp add: priceOf_def split: sum.splits)

lemma priceOf_in_grid:
  "in_grid r c \<Longrightarrow> priceOf r c = Some (if c = 1 \<or> c = 4 then 100 else if c = 2 then 75 else 50)"
  by (simp add: priceOf_Some in_grid_price)

lemma sum_of_prices_Nil: "sum_of_prices [] = Some 0"
  by (simp add: sum_of_prices_def)

lemma sum_of_prices_Cons:
  "sum_of_prices (x # xs) =
     (case priceOf (seatRow x) (seatColumn x) of
        None \<Rightarrow> None
      | Some p \<Rightarrow> (case sum_of_prices xs of None \<Rightarrow> None | Some t \<Rightarrow> Some (p + t)))"
  by (auto simp add: sum_of_prices_def split: option.splits)

lemma total_from_sum:
  "total_from acc rs =
     (case sum_of_prices rs of None \<Rightarrow> Inl IndexError | Some t \<Rightarrow> Inr (acc + t))"
proof (induction rs arbitrary: acc)
  case Nil
  then show ?case by (simp add: sum_of_prices_Nil)
next
  case (Cons x xs)
  show ?case
  proof (cases "priceOf (seatRow x) (seatColumn x)")
    case None
    then have "calculate_price_for_seat (seatRow x) (seatColumn x) = Inl IndexError"
      by (simp add: priceOf_None)
    then show ?thesis
      using None by (simp add: sum_of_prices_Cons)
  next
    case (Some p)
    then have "calculate_price_for_seat (seatRow x) (seatColumn x) = Inr p"
      by (simp add: priceOf_Some)
    then show ?thesis
      using Some by (simp add: sum_of_prices_Cons Cons.IH split: option.splits)
  qed
qed

lemma calculate_total_sales_sum:
  "calculate_total_sales rs =
     (case sum_of_prices rs of None \<Rightarrow> Inl IndexError | Some t \<Rightarrow> Inr t)"
  by (simp add: calculate_total_sales_def total_from_sum split: option.splits)

lemma with_prices_sum:
  "with_prices rs =
     (case sum_of_prices rs of
        None \<Rightarrow> Inl IndexError
      | Some t \<Rightarrow> Inr (map (\<lambda>x. (x, the (priceOf (seatRow x) (seatColumn x)))) rs))"
proof (induction rs)
  case Nil
  then show ?case by (simp add: sum_of_prices_Nil)
next
  case (Cons x xs)
  show ?case
  proof (cases "priceOf (seatRow x) (seatColumn x)")
    case None
    then have "calculate_price_for_seat (seatRow x) (seatColumn x) = Inl IndexError"
      by (simp add: priceOf_None)
    then show ?thesis
      using None by (simp add: sum_of_prices_Cons)
  next
    case (Some p)
    then have "calculate_price_for_seat (seatRow x) (seatColumn x) = Inr p"
      by (simp add: priceOf_Some)
    then show ?thesis
      using Some by (simp add: sum_of_prices_Cons Cons.IH split: option.splits)
  qed
qed

lemma admin_dashboard_anon:
  "\<not> authenticated sess \<Longrightarrow> admin_dashboard sess s = Inr (Redirect Admin_login)"
  by (simp add: admin_dashboard_def authenticated_def)

lemma admin_dashboard_auth:
  "authenticated sess \<Longrightarrow>
     admin_dashboard sess s =
       (case sum_of_prices (reservations s) of
          None \<Rightarrow> Inl IndexError
        | Some t \<Rightarrow>
            Inr (Admin_html (build_seating_chart (reservations s)) t
                   (map (\<lambda>x. (x, the (priceOf (seatRow x) (seatColumn x)))) (reservations s))))"
  by (simp add: admin_dashboard_def authenticated_def query_all_def calculate_total_sales_sum
      with_prices_sum Let_def split: option.splits)

lemma sum_of_prices_in_grid:
  "\<forall>x\<in>set rs. in_grid (seatRow x) (seatColumn x) \<Longrightarrow> sum_of_prices rs \<noteq> None"
  by (auto simp add: sum_of_prices_def list_all_iff priceOf_in_grid)

lemma two_bookings_total:
  assumes "reservations s = []"
    "reserve_seat req1 rnd1 now1 s = (out1, s1)" "is_confirmation out1"
    "parse_seat (form req1) = Some (1, 1)"
    "reserve_seat req2 rnd2 now2 s1 = (out2, s2)" "is_confirmation out2"
    "parse_seat (form req2) = Some (1, 3)"
  shows "sum_of_prices (reservations s2) = Some 150"
proof -
  from reserve_seat_frame(2) [OF assms(2,3)] assms(4)
  have s1: "s1 = s\<lparr>reservations := reservations s @ [booked_row s req1 rnd1 now1 1 1]\<rparr>"
    by auto
  from reserve_seat_frame(2) [OF assms(5,6)] assms(7)
  have s2: "s2 = s1\<lparr>reservations := reservations s1 @ [booked_row s1 req2 rnd2 now2 1 3]\<rparr>"
    by auto
  have "priceOf 1 1 = Some 100" "priceOf 1 3 = Some 50"
    by (simp_all add: priceOf_in_grid in_grid_def)
  then show ?thesis
    by (simp add: s2 s1 assms(1) sum_of_prices_Cons sum_of_prices_Nil)
qed

lemma sum_of_prices_all_in_grid:
  assumes "\<forall>x\<in>set rs. in_grid (seatRow x) (seatColumn x)"
  shows "sum_of_prices rs =
    Some (sum_list (map (\<lambda>x. the (priceOf (seatRow x) (seatColumn x))) rs))"
  using sum_of_prices_in_grid [OF assms] by (simp add: sum_of_prices_def split: if_splits)

text \<open>
  C5. For every list of reservations \<^verbatim>\<open>calculate_total_sales\<close> is the sum of the prices
  of the reservations' seats (and raises when a reservation has no price, which no
  reservation on the grid does); the dashboard of a logged-in administrator shows that
  total for the reservations of the database. After exactly the seats (1,1) and (1,3)
  have been booked in a database without reservations, the total is 150.
\<close>

theorem total_sales_is_sum:
  "calculate_total_sales rs =
     (case sum_of_prices rs of None \<Rightarrow> Inl IndexError | Some t \<Rightarrow> Inr t) \<and>
   ((\<forall>x\<in>set rs. in_grid (seatRow x) (seatColumn x)) \<longrightarrow>
      calculate_total_sales rs =
        Inr (sum_list (map (\<lambda>x. the (priceOf (seatRow x) (seatColumn x))) rs))) \<and>
   (authenticated sess \<longrightarrow>
      admin_dashboard sess s =
        (case sum_of_prices (reservations s) of
           None \<Rightarrow> Inl IndexError
         | Some t \<Rightarrow>
             Inr (Admin_html (build_seating_chart (reservations s)) t
                    (map (\<lambda>x. (x, the (priceOf (seatRow x) (seatColumn x)))) (reservations s))))) \<and>
   (reservations s0 = [] \<and>
    reserve_seat req1 rnd1 now1 s0 = (out1, s1) \<and> is_confirmation out1 \<and>
    parse_seat (form req1) = Some (1, 1) \<and>
    reserve_seat req2 rnd2 now2 s1 = (out2, s2) \<and> is_confirmation out2 \<and>
    parse_seat (form req2) = Some (1, 3) \<and> authenticated sess \<longrightarrow>
      calculate_total_sales (reservations s2) = Inr 150 \<and>
      (\<exists>chart rows. admin_dashboard sess s2 = Inr (Admin_html chart 150 rows)))"
proof (intro conjI impI)
  show "calculate_total_sales rs =
     (case sum_of_prices rs of None \<Rightarrow> Inl IndexError | Some t \<Rightarrow> Inr t)"
    by (rule calculate_total_sales_sum)
next
  assume "\<forall>x\<in>set rs. in_grid (seatRow x) (seatColumn x)"
  then show "calculate_total_sales rs =
        Inr (sum_list (map (\<lambda>x. the (priceOf (seatRow x) (seatColumn x))) rs))"
    by (simp add: calculate_total_sales_sum sum_of_prices_all_in_grid)
next
  assume "authenticated sess"
  then show "admin_dashboard sess s =
        (case sum_of_prices (reservations s) of
           None \<Rightarrow> Inl IndexError
         | Some t \<Rightarrow>
             Inr (Admin_html (build_seating_chart (reservations s)) t
                    (map (\<lambda>x. (x, the (priceOf (seatRow x) (seatColumn x)))) (reservations s))))"
    by (rule admin_dashboard_auth)
next
  assume a: "reservations s0 = [] \<and>
    reserve_seat req1 rnd1 now1 s0 = (out1, s1) \<and> is_confirmation out1 \<and>
    parse_seat (form req1) = Some (1, 1) \<and>
    reserve_seat req2 rnd2 now2 s1 = (out2, s2) \<and> is_confirmation out2 \<and>
    parse_seat (form req2) = Some (1, 3) \<and> authenticated sess"
  then have t: "sum_of_prices (reservations s2) = Some 150"
    using two_bookings_total [of s0 req1 rnd1 now1 out1 s1 req2 rnd2 now2 out2 s2] by blast
  show "calculate_total_sales (reservations s2) = Inr 150"
    by (simp add: calculate_total_sales_sum t)
  show "\<exists>chart rows. admin_dashboard sess s2 = Inr (Admin_html chart 150 rows)"
    using a by (simp add: admin_dashboard_auth t)
qed

lemma code_half_source: "generate_reservation_code half_source 8 = ''SSSSSSSS''"
  by (simp add: code_is_choices choices_def choice_index_def alphabet upt_rec half_source_def)

lemma booking_11:
  "reserve_seat (seat_request ''1'' ''1'') (\<lambda>i. 0) 7 seeded_db =
     (Inr (Reserve_html None (Some (booked_message (seat_request ''1'' ''1'') (\<lambda>i. 0) 1 1))
        (build_seating_chart [booked_row seeded_db (seat_request ''1'' ''1'') (\<lambda>i. 0) 7 1 1])),
      seeded_db\<lparr>reservations := [booked_row seeded_db (seat_request ''1'' ''1'') (\<lambda>i. 0) 7 1 1]\<rparr>)"
  using reserve_seat_success [of "seat_request ''1'' ''1''" 1 1 seeded_db "\<lambda>i. 0" 7]
  by (simp add: seat_request_booking seat_request_parse in_grid_def seat_taken_def
      reservations_at_def seeded_db_def)

lemma booking_13_after_11:
  "is_confirmation (fst (reserve_seat (seat_request ''1'' ''3'') half_source 9
     (seeded_db\<lparr>reservations :=
        [booked_row seeded_db (seat_request ''1'' ''1'') (\<lambda>i. 0) 7 1 1]\<rparr>)))"
  using reserve_seat_success [of "seat_request ''1'' ''3''" 1 3
      "seeded_db\<lparr>reservations :=
        [booked_row seeded_db (seat_request ''1'' ''1'') (\<lambda>i. 0) 7 1 1]\<rparr>" half_source 9]
  by (simp add: seat_request_booking seat_request_parse in_grid_def seat_taken_def
      reservations_at_def booked_row_def code_zero code_half_source)

theorem total_sales_is_sum_witness:
  "reservations seeded_db = [] \<and>
   is_confirmation (fst (reserve_seat (seat_request ''1'' ''1'') (\<lambda>i. 0) 7 seeded_db)) \<and>
   is_confirmation (fst (reserve_seat (seat_request ''1'' ''3'') half_source 9
     (snd (reserve_seat (seat_request ''1'' ''1'') (\<lambda>i. 0) 7 seeded_db)))) \<and>
   calculate_total_sales (reservations
     (snd (reserve_seat (seat_request ''1'' ''3'') half_source 9
        (snd (reserve_seat (seat_request ''1'' ''1'') (\<lambda>i. 0) 7 seeded_db))))) = Inr 150 \<and>
   (\<exists>chart rows. admin_dashboard [''admin_username'' \<mapsto> ''a'']
     (snd (reserve_seat (seat_request ''1'' ''3'') half_source 9
        (snd (reserve_seat (seat_request ''1'' ''1'') (\<lambda>i. 0) 7 seeded_db)))) =
       Inr (Admin_html chart 150 rows))"
proof -
  let ?r1 = "reserve_seat (seat_request ''1'' ''1'') (\<lambda>i. 0) 7 seeded_db"
  let ?r2 = "reserve_seat (seat_request ''1'' ''3'') half_source 9 (snd ?r1)"
  have e: "reservations seeded_db = []"
    by (simp add: seeded_db_def)
  have c1: "is_confirmation (fst ?r1)"
    by (simp add: booking_11)
  have c2: "is_confirmation (fst ?r2)"
    using booking_13_after_11 by (simp add: booking_11)
  have p1: "?r1 = (fst ?r1, snd ?r1)" and p2: "?r2 = (fst ?r2, snd ?r2)"
    by simp_all
  show ?thesis
    using total_sales_is_sum [of "[]" "[''admin_username'' \<mapsto> ''a'']" seeded_db seeded_db
        "seat_request ''1'' ''1''" "\<lambda>i. 0" 7 "fst ?r1" "snd ?r1"
        "seat_request ''1'' ''3''" half_source 9 "fst ?r2" "snd ?r2"]
      e c1 c2 p1 p2 seat_request_parse(1,2) admin_session
    by blast
qed

subsection \<open>The administrator's session\<close>

lemma find_match:
  "\<exists>x\<in>set xs. P x \<Longrightarrow> \<exists>y. find P xs = Some y \<and> P y"
  by (induction xs) auto

lemma admin_login_match:
  assumes "req_method req = POST" "form req ''username'' = Some u" "form req ''password'' = Some p"
    "\<exists>a\<in>set (admins s). username a = strip u \<and> password a = strip p"
  shows "admin_login req sess s =
    (Inr (Redirect Admin_dashboard), sess(''admin_username'' \<mapsto> strip u))"
proof -
  obtain adm where "admin_filter_first s (strip u) (strip p) = Some adm" "username adm = strip u"
    using find_match [OF assms(4)] unfolding admin_filter_first_def by blast
  then show ?thesis
    using assms(1-3) by (simp add: admin_login_def)
qed

lemma admin_login_no_match:
  assumes "req_method req = POST" "form req ''username'' = Some u" "form req ''password'' = Some p"
    "\<not> (\<exists>a\<in>set (admins s). username a = strip u \<and> password a = strip p)"
  shows "admin_login req sess s = (Inr (Login_html (Some Invalid_login)), sess)"
proof -
  have "admin_filter_first s (strip u) (strip p) = None"
    using assms(4) by (simp add: admin_filter_first_def find_None_iff)
  then show ?thesis
    using assms(1-3) by (simp add: admin_login_def)
qed

lemma admin_dashboard_renders:
  assumes "authenticated sess" "\<forall>x\<in>set (reservations s). in_grid (seatRow x) (seatColumn x)"
  shows "\<exists>chart t rows. admin_dashboard sess s = Inr (Admin_html chart t rows)"
  using sum_of_prices_in_grid [OF assms(2)]
  by (auto simp add: admin_dashboard_auth [OF assms(1)])

lemma admin_dashboard_passes:
  "authenticated sess \<Longrightarrow> admin_dashboard sess s \<noteq> Inr (Redirect Admin_login)"
  by (simp add: admin_dashboard_auth split: option.splits)

text \<open>
  C7. Without the session key every dashboard request is answered with the redirect to
  the login flow, so a dashboard that is rendered was requested with the key. A login
  whose username and password (the trimmed form fields) are those of a stored
  administrator answers with the redirect to the dashboard and stores the username under
  the session key; with that session the dashboard request passes the gate, and renders
  whenever the reservations of the database are on the grid. A login that matches no
  administrator leaves the session as it was.
\<close>

theorem dashboard_gate:
  "(\<not> authenticated sess \<longrightarrow> admin_dashboard sess s = Inr (Redirect Admin_login)) \<and>
   (\<forall>chart t rows. admin_dashboard sess s = Inr (Admin_html chart t rows) \<longrightarrow> authenticated sess) \<and>
   (req_method req = POST \<and> form req ''username'' = Some u \<and> form req ''password'' = Some p \<longrightarrow>
      (if \<exists>a\<in>set (admins s). username a = strip u \<and> password a = strip p
       then admin_login req sess s =
              (Inr (Redirect Admin_dashboard), sess(''admin_username'' \<mapsto> strip u)) \<and>
            authenticated (snd (admin_login req sess s)) \<and>
            admin_dashboard (snd (admin_login req sess s)) s' \<noteq> Inr (Redirect Admin_login) \<and>
            ((\<forall>x\<in>set (reservations s'). in_grid (seatRow x) (seatColumn x)) \<longrightarrow>
               (\<exists>chart t rows. admin_dashboard (snd (admin_login req sess s)) s' =
                  Inr (Admin_html chart t rows)))
       else admin_login req sess s = (Inr (Login_html (Some Invalid_login)), sess)))"
proof (intro conjI impI allI)
  show "admin_dashboard sess s = Inr (Redirect Admin_login)" if "\<not> authenticated sess"
    using that by (rule admin_dashboard_anon)
next
  fix chart t rows
  assume "admin_dashboard sess s = Inr (Admin_html chart t rows)"
  then show "authenticated sess"
    using admin_dashboard_anon [of sess s] by auto
next
  assume a: "req_method req = POST \<and> form req ''username'' = Some u \<and> form req ''password'' = Some p"
  show "if \<exists>a\<in>set (admins s). username a = strip u \<and> password a = strip p
       then admin_login req sess s =
              (Inr (Redirect Admin_dashboard), sess(''admin_username'' \<mapsto> strip u)) \<and>
            authenticated (snd (admin_login req sess s)) \<and>
            admin_dashboard (snd (admin_login req sess s)) s' \<noteq> Inr (Redirect Admin_login) \<and>
            ((\<forall>x\<in>set (reservations s'). in_grid (seatRow x) (seatColumn x)) \<longrightarrow>
               (\<exists>chart t rows. admin_dashboard (snd (admin_login req sess s)) s' =
                  Inr (Admin_html chart t rows)))
       else admin_login req sess s = (Inr (Login_html (Some Invalid_login)), sess)"
  proof (cases "\<exists>a\<in>set (admins s). username a = strip u \<and> password a = strip p")
    case True
    have l: "admin_login req sess s =
        (Inr (Redirect Admin_dashboard), sess(''admin_username'' \<mapsto> strip u))"
      using a True by (intro admin_login_match) simp_all
    have au: "authenticated (snd (admin_login req sess s))"
      by (simp add: l authenticated_def)
    show ?thesis
      using True l au admin_dashboard_passes [OF au, of s'] admin_dashboard_renders [OF au, of s']
      by simp
  next
    case False
    then show ?thesis
      using a admin_login_no_match [of req u p s sess] by simp
  qed
qed

theorem dashboard_gate_witness:
  "admin_dashboard Map.empty seeded_db = Inr (Redirect Admin_login) \<and>
   admin_login (login_request ''a'' ''p'') Map.empty seeded_db =
     (Inr (Redirect Admin_dashboard), [''admin_username'' \<mapsto> ''a'']) \<and>
   (\<exists>chart t rows.
      admin_dashboard (snd (admin_login (login_request ''a'' ''p'') Map.empty seeded_db)) seeded_db =
        Inr (Admin_html chart t rows)) \<and>
   admin_login (login_request ''a'' ''q'') Map.empty seeded_db =
     (Inr (Login_html (Some Invalid_login)), Map.empty)"
proof -
  have m: "req_method (login_request u p) = POST" "form (login_request u p) ''username'' = Some u"
    "form (login_request u p) ''password'' = Some p" for u p
    by (simp_all add: login_request_def)
  have st: "strip ''a'' = ''a''" "strip ''q'' = ''q''"
    by (simp_all add: strip_def strip_by_def str_space_def int_space_def)
  have ok: "\<exists>a\<in>set (admins seeded_db). username a = strip ''a'' \<and> password a = strip ''p''"
    by (simp add: seeded_db_def st strip_examples)
  have no: "\<not> (\<exists>a\<in>set (admins seeded_db). username a = strip ''a'' \<and> password a = strip ''q'')"
    by (simp add: seeded_db_def st)
  have anon: "\<not> authenticated Map.empty"
    by (simp add: authenticated_def)
  have grid: "\<forall>x\<in>set (reservations seeded_db). in_grid (seatRow x) (seatColumn x)"
    by (simp add: seeded_db_def)
  note gate = dashboard_gate [of Map.empty seeded_db _ _ _ seeded_db]
  have d: "admin_dashboard Map.empty seeded_db = Inr (Redirect Admin_login)"
    using gate [of "login_request ''a'' ''p''" "''a''" "''p''"] anon by blast
  note yes = gate [of "login_request ''a'' ''p''" "''a''" "''p''", THEN conjunct2, THEN conjunct2,
      THEN mp, OF conjI [OF m(1) conjI [OF m(2) m(3)]], unfolded if_P [OF ok]]
  note nay = gate [of "login_request ''a'' ''q''" "''a''" "''q''", THEN conjunct2, THEN conjunct2,
      THEN mp, OF conjI [OF m(1) conjI [OF m(2) m(3)]], unfolded if_not_P [OF no]]
  have l: "admin_login (login_request ''a'' ''p'') Map.empty seeded_db =
     (Inr (Redirect Admin_dashboard), [''admin_username'' \<mapsto> ''a''])"
    using yes by (simp add: st)
  have r: "\<exists>chart t rows.
      admin_dashboard (snd (admin_login (login_request ''a'' ''p'') Map.empty seeded_db)) seeded_db =
        Inr (Admin_html chart t rows)"
    using yes grid by blast
  show ?thesis
    using d l r nay by blast
qed

end
